theory Spec2Isabelle
  imports Main "HOL-Library.Sublist" "HOL-Library.Multiset"
begin

section \<open>JavaScript values used by the proxy servers\<close>

text \<open>
  The repository holds three variants of one Express server: a yt-dlp variant and a
  play-dl variant (both in \<^verbatim>\<open>src/index.js\<close>) and an Innertube variant
  (\<^verbatim>\<open>src/unnamed/part_000\<close>). A JavaScript string is modelled as a \<^typ>\<open>string\<close>,
  one \<^typ>\<open>char\<close> per code unit: the servers only take lengths, test prefixes and
  substrings, and concatenate. A property that may be \<^verbatim>\<open>undefined\<close> is an
  \<^typ>\<open>'a option\<close>. An \<^verbatim>\<open>Error\<close> is represented by its message. What the servers
  write to the console is left out.
\<close>

text \<open>\<^verbatim>\<open>s.includes(pat)\<close>: \<open>pat\<close> occurs in \<open>s\<close> as a contiguous substring.\<close>

fun includes_str :: "string \<Rightarrow> string \<Rightarrow> bool" where
  "includes_str [] pat = (pat = [])"
| "includes_str (c # cs) pat = (prefix pat (c # cs) \<or> includes_str cs pat)"

text \<open>\<^verbatim>\<open>s.startsWith(p)\<close>.\<close>

definition startsWith :: "string \<Rightarrow> string \<Rightarrow> bool" where
  "startsWith s p = prefix p s"

text \<open>\<^verbatim>\<open>x || d\<close> on an optional string: the empty string is falsy.\<close>

definition str_or :: "string option \<Rightarrow> string \<Rightarrow> string" where
  "str_or x d = (case x of None \<Rightarrow> d | Some s \<Rightarrow> if s = [] then d else s)"

text \<open>\<^verbatim>\<open>x || d\<close> on an optional number: zero is falsy.\<close>

definition num_or :: "int option \<Rightarrow> int \<Rightarrow> int" where
  "num_or x d = (case x of None \<Rightarrow> d | Some n \<Rightarrow> if n = 0 then d else n)"

text \<open>Truthiness of an optional string, as in \<^verbatim>\<open>format && format.url\<close>.\<close>

definition truthy_str :: "string option \<Rightarrow> bool" where
  "truthy_str x = (case x of None \<Rightarrow> False | Some s \<Rightarrow> s \<noteq> [])"

text \<open>
  \<^verbatim>\<open>Array.prototype.sort(cmp)\<close>. The language requires the sort to be stable, and the
  comparators of this program order by an integer key, so the result is the one stable
  arrangement with \<open>cmp a b \<le> 0\<close> for every \<open>a\<close> placed before \<open>b\<close>; insertion from the
  right computes it. An element goes in front of the first element it does not have to
  follow, hence in front of its equals that came later in the input.
\<close>

fun insert_cmp :: "('a \<Rightarrow> 'a \<Rightarrow> int) \<Rightarrow> 'a \<Rightarrow> 'a list \<Rightarrow> 'a list" where
  "insert_cmp cmp x [] = [x]"
| "insert_cmp cmp x (y # ys) = (if cmp x y \<le> 0 then x # y # ys else y # insert_cmp cmp x ys)"

fun sort_cmp :: "('a \<Rightarrow> 'a \<Rightarrow> int) \<Rightarrow> 'a list \<Rightarrow> 'a list" where
  "sort_cmp cmp [] = []"
| "sort_cmp cmp (x # xs) = insert_cmp cmp x (sort_cmp cmp xs)"

text \<open>\<^verbatim>\<open>xs[0]\<close>, which is \<^verbatim>\<open>undefined\<close> on the empty array.\<close>

fun first_elem :: "'a list \<Rightarrow> 'a option" where
  "first_elem [] = None"
| "first_elem (x # xs) = Some x"

section \<open>Stream formats and the format selector\<close>

text \<open>
  The player state of a session, the session and the Innertube client that owns it
  (\<^verbatim>\<open>youtube.session.player\<close>). The number tells instances apart.
\<close>

datatype player = Player nat

record session =
  player :: player

record innertube =
  session :: session

text \<open>
  One entry of \<^verbatim>\<open>adaptive_formats\<close> (Innertube) or of \<^verbatim>\<open>info.format\<close> (play-dl, where
  the MIME type is spelled \<^verbatim>\<open>mimeType\<close> and there is no \<^verbatim>\<open>decipher\<close>). Deciphering
  takes the player and returns the URL or throws.
\<close>

record format =
  mime_type :: "string option"
  bitrate :: "int option"
  url :: "string option"
  decipher :: "(player \<Rightarrow> string + string) option"

text \<open>\<^verbatim>\<open>f.mime_type?.includes('audio')\<close>: a missing MIME type is not audio.\<close>

definition is_audio :: "format \<Rightarrow> bool" where
  "is_audio f = (case mime_type f of None \<Rightarrow> False | Some m \<Rightarrow> includes_str m ''audio'')"

text \<open>\<^verbatim>\<open>f.bitrate || 0\<close>.\<close>

definition bitrate_or0 :: "format \<Rightarrow> int" where
  "bitrate_or0 f = num_or (bitrate f) 0"

text \<open>
  \<^verbatim>\<open>xs.filter(p).sort((a, b) => key(b) - key(a))[0]\<close>, for any element type: the
  selector itself is the instance at formats below.
\<close>

definition pick_best :: "('a \<Rightarrow> bool) \<Rightarrow> ('a \<Rightarrow> int) \<Rightarrow> 'a list \<Rightarrow> 'a option" where
  "pick_best p key xs = first_elem (sort_cmp (\<lambda>a b. key b - key a) (filter p xs))"

text \<open>
  \<^verbatim>\<open>formats.filter(f => f.mime_type?.includes('audio'))
       .sort((a, b) => (b.bitrate || 0) - (a.bitrate || 0))[0]\<close>
\<close>

definition select_format :: "format list \<Rightarrow> format option" where
  "select_format fs = pick_best is_audio bitrate_or0 fs"

text \<open>
  \<^verbatim>\<open>info.streaming_data?.adaptive_formats?.filter(...)?.sort(...)[0]\<close> of the Innertube
  variant: a missing \<^verbatim>\<open>streaming_data\<close> or \<^verbatim>\<open>adaptive_formats\<close> ends the whole
  chain with \<^verbatim>\<open>undefined\<close>.
\<close>

record streaming_data =
  adaptive_formats :: "format list option"

record info =
  streaming_data :: "streaming_data option"

definition select_adaptive :: "info \<Rightarrow> format option" where
  "select_adaptive i =
     (case streaming_data i of
        None \<Rightarrow> None
      | Some sd \<Rightarrow> (case adaptive_formats sd of None \<Rightarrow> None | Some fs \<Rightarrow> select_format fs))"

section \<open>More of the JavaScript and Node library\<close>

text \<open>\<^verbatim>\<open>!videoId || videoId.length !== 11\<close>, the test every validating handler starts with.\<close>

definition invalid_id :: "string \<Rightarrow> bool" where
  "invalid_id videoId = (videoId = [] \<or> length videoId \<noteq> 11)"

text \<open>A value inside a template literal: \<^verbatim>\<open>undefined\<close> prints as that word.\<close>

definition template_str :: "string option \<Rightarrow> string" where
  "template_str x = (case x of None \<Rightarrow> ''undefined'' | Some s \<Rightarrow> s)"

text \<open>\<^verbatim>\<open>s.replace(pat, rep)\<close> with a string pattern: the first occurrence only.\<close>

fun replace_first :: "string \<Rightarrow> string \<Rightarrow> string \<Rightarrow> string" where
  "replace_first pat rep [] = (if pat = [] then rep else [])"
| "replace_first pat rep (c # cs) =
     (if prefix pat (c # cs) then rep @ drop (length pat) (c # cs)
      else c # replace_first pat rep cs)"

text \<open>
  \<^verbatim>\<open>s.trim()\<close> strips white space and line terminators from both ends. Of those,
  the ones that fit in a \<^typ>\<open>char\<close> are the space, tab, line feed, vertical tab, form
  feed, carriage return and the no-break space U+00A0.
\<close>

definition is_space :: "char \<Rightarrow> bool" where
  "is_space c =
     (c \<in> set [CHR 0x20, CHR 0x09, CHR 0x0A, CHR 0x0B, CHR 0x0C, CHR 0x0D, CHR 0xA0])"

definition trim :: "string \<Rightarrow> string" where
  "trim s = rev (dropWhile is_space (rev (dropWhile is_space s)))"

text \<open>
  \<^verbatim>\<open>path.join\<close> of Node on POSIX: the non-empty arguments are joined with a slash and
  the result is normalised. Normalising drops empty and \<^verbatim>\<open>.\<close> segments, lets a
  \<^verbatim>\<open>..\<close> segment remove the segment before it (at the root of an absolute path it is
  dropped; in a relative path it stays when nothing is left to remove), and keeps a
  trailing slash.
\<close>

fun split_on :: "char \<Rightarrow> string \<Rightarrow> string list" where
  "split_on sep [] = [[]]"
| "split_on sep (c # cs) =
     (if c = sep then [] # split_on sep cs
      else (case split_on sep cs of [] \<Rightarrow> [[c]] | s # ss \<Rightarrow> (c # s) # ss))"

fun join_with :: "string \<Rightarrow> string list \<Rightarrow> string" where
  "join_with sep [] = []"
| "join_with sep [s] = s"
| "join_with sep (s # t # ss) = s @ sep @ join_with sep (t # ss)"

fun normalize_segs :: "bool \<Rightarrow> string list \<Rightarrow> string list \<Rightarrow> string list" where
  "normalize_segs allowAboveRoot [] acc = rev acc"
| "normalize_segs allowAboveRoot (s # ss) acc =
     (if s = [] \<or> s = ''.'' then normalize_segs allowAboveRoot ss acc
      else if s = ''..'' then
        (case acc of
           [] \<Rightarrow> normalize_segs allowAboveRoot ss (if allowAboveRoot then [''..''] else [])
         | t # ts \<Rightarrow>
             if t \<noteq> ''..'' then normalize_segs allowAboveRoot ss ts
             else normalize_segs allowAboveRoot ss (if allowAboveRoot then ''..'' # acc else acc))
      else normalize_segs allowAboveRoot ss (s # acc))"

definition normalize :: "string \<Rightarrow> string" where
  "normalize p =
     (if p = [] then ''.''
      else let isAbsolute = (hd p = CHR ''/'');
               trailingSeparator = (last p = CHR ''/'');
               body = join_with ''/'' (normalize_segs (\<not> isAbsolute) (split_on CHR ''/'' p) [])
           in if body = [] then (if isAbsolute then ''/'' else if trailingSeparator then ''./'' else ''.'')
              else (if isAbsolute then ''/'' else []) @ body @ (if trailingSeparator then ''/'' else []))"

definition path_join :: "string list \<Rightarrow> string" where
  "path_join args =
     (let joined = join_with ''/'' (filter (\<lambda>a. a \<noteq> []) args)
      in if joined = [] then ''.'' else normalize joined)"

section \<open>Requests, responses and the capabilities outside the program\<close>

text \<open>An item of a ytsr result: \<^verbatim>\<open>v.type\<close>, \<^verbatim>\<open>v.id\<close>, \<^verbatim>\<open>v.title\<close>, \<^verbatim>\<open>v.author\<close>
  (\<^verbatim>\<open>name\<close>, \<^verbatim>\<open>channelID\<close>), \<^verbatim>\<open>v.bestThumbnail\<close> (\<^verbatim>\<open>url\<close>) and \<^verbatim>\<open>v.duration\<close>.\<close>

record author =
  name :: "string option"
  channelID :: "string option"

datatype thumbnail = Thumbnail (thumbnail_url: "string option")

record ytsr_item =
  type :: string
  id' :: "string option"
  title :: "string option"
  author :: "author option"
  bestThumbnail :: "thumbnail option"
  duration :: "string option"

text \<open>An entry of the \<^verbatim>\<open>items\<close> the search endpoint answers with.\<close>

record video =
  video_id :: "string option"
  video_title :: "string option"
  artist :: string
  thumbnail :: string
  video_duration :: "string option"
  authorId :: string

text \<open>The options handed to yt-dlp (\<^verbatim>\<open>format\<close> and \<^verbatim>\<open>output\<close> are the option names).\<close>

record ytdlp_opts =
  getUrl :: bool
  format_spec :: "string option"
  extractAudio :: bool
  audioFormat :: "string option"
  audioQuality :: "nat option"
  output_tmpl :: "string option"
  noCheckCertificates :: bool
  noWarnings :: bool

text \<open>What a handler answers.\<close>

datatype response =
    JsonError nat string
  | JsonUrl string string
  | JsonItems "video list"
  | Text nat string
  | Redirect string
  | SendFile string
  | Pipe "(string \<times> string) list" nat

text \<open>
  The calls a handler makes to the outside, in the order it makes them: what a spy on
  the search provider, the downloader, the file system and the platform clients records.
\<close>

datatype effect =
    Ytsr string nat
  | Ytdlp string ytdlp_opts
  | ExistsSync string
  | ReaddirSync string
  | RenameSync string string
  | VideoInfo string
  | PlayStream string nat
  | InnertubeCreate
  | GetBasicInfo innertube string
  | Decipher player

text \<open>
  The capabilities themselves are parameters of the model. Each acts on a world \<open>'w\<close>
  (network, disk) that the program cannot see otherwise; a call that throws returns the
  message on the left. \<^verbatim>\<open>ytsr\<close> takes the query and the \<^verbatim>\<open>limit\<close>,
  \<^verbatim>\<open>play.stream\<close> the URL and the \<^verbatim>\<open>quality\<close>, and returns a handle on the opened
  stream.
\<close>

text \<open>What \<^verbatim>\<open>play.video_info\<close> returns, as far as the server reads it.\<close>

record play_info =
  format :: "format list"

record 'w env =
  dirname :: string
  ytsr :: "string \<Rightarrow> nat \<Rightarrow> 'w \<Rightarrow> (string + ytsr_item list) \<times> 'w"
  ytdlp :: "string \<Rightarrow> ytdlp_opts \<Rightarrow> 'w \<Rightarrow> (string + string) \<times> 'w"
  existsSync :: "string \<Rightarrow> 'w \<Rightarrow> bool"
  readdirSync :: "string \<Rightarrow> 'w \<Rightarrow> string + string list"
  renameSync :: "string \<Rightarrow> string \<Rightarrow> 'w \<Rightarrow> string option \<times> 'w"
  video_info :: "string \<Rightarrow> 'w \<Rightarrow> (string + play_info) \<times> 'w"
  stream :: "string \<Rightarrow> nat \<Rightarrow> 'w \<Rightarrow> (string + nat) \<times> 'w"
  create :: "'w \<Rightarrow> (string + innertube) \<times> 'w"
  getBasicInfo :: "innertube \<Rightarrow> string \<Rightarrow> 'w \<Rightarrow> (string + info) \<times> 'w"

section \<open>Search (the same handler in all three variants)\<close>

definition to_video :: "ytsr_item \<Rightarrow> video" where
  "to_video v =
     \<lparr>video_id = id' v,
      video_title = title v,
      artist = str_or (Option.bind (author v) name) ''Unknown'',
      thumbnail = str_or (Option.bind (bestThumbnail v) thumbnail_url)
                    (''https://img.youtube.com/vi/'' @ template_str (id' v) @ ''/hqdefault.jpg''),
      video_duration = duration v,
      authorId = str_or (Option.bind (author v) channelID) []\<rparr>"

definition search_handler :: "'w env \<Rightarrow> string option \<Rightarrow> 'w \<Rightarrow> response \<times> effect list \<times> 'w" where
  "search_handler env q w =
     (let query = str_or q []
      in case ytsr env query 20 w of
           (Inl e, w') \<Rightarrow> (JsonError 500 e, [Ytsr query 20], w')
         | (Inr items, w') \<Rightarrow>
             (JsonItems (map to_video (filter (\<lambda>i. type i = ''video'') items)), [Ytsr query 20], w'))"


section \<open>The yt-dlp variant\<close>

definition watch_url :: "string \<Rightarrow> string" where
  "watch_url videoId = ''https://www.youtube.com/watch?v='' @ videoId"

definition get_url_opts :: ytdlp_opts where
  "get_url_opts =
     \<lparr>getUrl = True, format_spec = Some ''bestaudio[ext=m4a]/bestaudio/best'',
      extractAudio = False, audioFormat = None, audioQuality = None, output_tmpl = None,
      noCheckCertificates = True, noWarnings = True\<rparr>"

definition extract_opts :: "string \<Rightarrow> ytdlp_opts" where
  "extract_opts outputPath =
     \<lparr>getUrl = False, format_spec = None,
      extractAudio = True, audioFormat = Some ''mp3'', audioQuality = Some 0,
      output_tmpl = Some (replace_first ''.mp3'' ''.%(ext)s'' outputPath),
      noCheckCertificates = True, noWarnings = True\<rparr>"

definition audio_url_ytdlp :: "'w env \<Rightarrow> string \<Rightarrow> 'w \<Rightarrow> response \<times> effect list \<times> 'w" where
  "audio_url_ytdlp env videoId w =
     (if invalid_id videoId then (JsonError 400 ''Invalid video ID'', [], w)
      else case ytdlp env (watch_url videoId) get_url_opts w of
             (Inl e, w') \<Rightarrow> (JsonError 500 e, [Ytdlp (watch_url videoId) get_url_opts], w')
           | (Inr result, w') \<Rightarrow>
               (JsonUrl (trim result) videoId, [Ytdlp (watch_url videoId) get_url_opts], w'))"

definition stream_ytdlp :: "'w env \<Rightarrow> string \<Rightarrow> 'w \<Rightarrow> response \<times> effect list \<times> 'w" where
  "stream_ytdlp env videoId w =
     (if invalid_id videoId then (Text 400 ''Invalid video ID'', [], w)
      else case ytdlp env (watch_url videoId) get_url_opts w of
             (Inl e, w') \<Rightarrow> (Text 500 ''Stream error'', [Ytdlp (watch_url videoId) get_url_opts], w')
           | (Inr result, w') \<Rightarrow>
               (Redirect (trim result), [Ytdlp (watch_url videoId) get_url_opts], w'))"

definition DOWNLOADS_DIR :: "'w env \<Rightarrow> string" where
  "DOWNLOADS_DIR env = path_join [dirname env, ''downloads'']"

definition outputPath :: "'w env \<Rightarrow> string \<Rightarrow> string" where
  "outputPath env videoId = path_join [DOWNLOADS_DIR env, videoId @ ''.mp3'']"

text \<open>
  The download handler after yt-dlp has returned (\<^verbatim>\<open>// Find the downloaded file\<close>):
  list the directory, take the first name that starts with the id, rename it when its
  path is not the canonical one and still exists, and send the canonical path. The
  effects made so far come in as \<open>tr\<close>. An exception of \<^verbatim>\<open>readdirSync\<close> or
  \<^verbatim>\<open>renameSync\<close> lands in the handler's \<^verbatim>\<open>catch\<close>.
\<close>

definition find_downloaded ::
  "'w env \<Rightarrow> string \<Rightarrow> effect list \<Rightarrow> 'w \<Rightarrow> response \<times> effect list \<times> 'w" where
  "find_downloaded env videoId tr w =
     (case readdirSync env (DOWNLOADS_DIR env) w of
        Inl e \<Rightarrow> (Text 500 ''Download error'', tr @ [ReaddirSync (DOWNLOADS_DIR env)], w)
      | Inr files \<Rightarrow>
          (case find (\<lambda>f. startsWith f videoId) files of
             None \<Rightarrow> (Text 500 ''Download failed'', tr @ [ReaddirSync (DOWNLOADS_DIR env)], w)
           | Some downloadedFile \<Rightarrow>
               if downloadedFile = [] then
                 (Text 500 ''Download failed'', tr @ [ReaddirSync (DOWNLOADS_DIR env)], w)
               else
                 let actualPath = path_join [DOWNLOADS_DIR env, downloadedFile]
                 in if actualPath \<noteq> outputPath env videoId then
                      (if existsSync env actualPath w then
                         (case renameSync env actualPath (outputPath env videoId) w of
                            (Some e, w') \<Rightarrow>
                              (Text 500 ''Download error'',
                               tr @ [ReaddirSync (DOWNLOADS_DIR env), ExistsSync actualPath,
                                     RenameSync actualPath (outputPath env videoId)], w')
                          | (None, w') \<Rightarrow>
                              (SendFile (outputPath env videoId),
                               tr @ [ReaddirSync (DOWNLOADS_DIR env), ExistsSync actualPath,
                                     RenameSync actualPath (outputPath env videoId)], w'))
                       else
                         (SendFile (outputPath env videoId),
                          tr @ [ReaddirSync (DOWNLOADS_DIR env), ExistsSync actualPath], w))
                    else
                      (SendFile (outputPath env videoId),
                       tr @ [ReaddirSync (DOWNLOADS_DIR env)], w)))"

definition download_ytdlp :: "'w env \<Rightarrow> string \<Rightarrow> 'w \<Rightarrow> response \<times> effect list \<times> 'w" where
  "download_ytdlp env videoId w =
     (if invalid_id videoId then (Text 400 ''Invalid video ID'', [], w)
      else if existsSync env (outputPath env videoId) w then
        (SendFile (outputPath env videoId), [ExistsSync (outputPath env videoId)], w)
      else
        (case ytdlp env (watch_url videoId) (extract_opts (outputPath env videoId)) w of
           (Inl e, w') \<Rightarrow>
             (Text 500 ''Download error'',
              [ExistsSync (outputPath env videoId),
               Ytdlp (watch_url videoId) (extract_opts (outputPath env videoId))], w')
         | (Inr result, w') \<Rightarrow>
             find_downloaded env videoId
               [ExistsSync (outputPath env videoId),
                Ytdlp (watch_url videoId) (extract_opts (outputPath env videoId))] w'))"

text \<open>The same request made \<open>n\<close> times in a row: the answers with their effects, and the
  world at the end.\<close>

fun repeat_request ::
  "('w \<Rightarrow> response \<times> effect list \<times> 'w) \<Rightarrow> nat \<Rightarrow> 'w \<Rightarrow> (response \<times> effect list) list \<times> 'w" where
  "repeat_request h 0 w = ([], w)"
| "repeat_request h (Suc n) w =
     (case h w of (r, tr, w') \<Rightarrow>
        (case repeat_request h n w' of (rs, w'') \<Rightarrow> ((r, tr) # rs, w'')))"

text \<open>Whether an effect is a run of the downloader.\<close>

fun is_download :: "effect \<Rightarrow> bool" where
  "is_download (Ytdlp u opts) = True"
| "is_download e = False"

section \<open>The play-dl variant\<close>

text \<open>
  The stream and download handlers end by piping the opened stream into the response;
  what happens to the stream afterwards (an error event, the client closing) is not
  part of the model.
\<close>

definition audio_url_playdl :: "'w env \<Rightarrow> string \<Rightarrow> 'w \<Rightarrow> response \<times> effect list \<times> 'w" where
  "audio_url_playdl env videoId w =
     (if invalid_id videoId then (JsonError 400 ''Invalid video ID'', [], w)
      else case video_info env (watch_url videoId) w of
             (Inl e, w') \<Rightarrow> (JsonError 500 e, [VideoInfo (watch_url videoId)], w')
           | (Inr i, w') \<Rightarrow>
               (case select_format (format i) of
                  None \<Rightarrow> (JsonError 500 ''No audio format found'', [VideoInfo (watch_url videoId)], w')
                | Some f \<Rightarrow>
                    (case url f of
                       None \<Rightarrow>
                         (JsonError 500 ''No audio format found'', [VideoInfo (watch_url videoId)], w')
                     | Some u \<Rightarrow>
                         if u = [] then
                           (JsonError 500 ''No audio format found'', [VideoInfo (watch_url videoId)], w')
                         else (JsonUrl u videoId, [VideoInfo (watch_url videoId)], w'))))"

definition stream_playdl :: "'w env \<Rightarrow> string \<Rightarrow> 'w \<Rightarrow> response \<times> effect list \<times> 'w" where
  "stream_playdl env videoId w =
     (if invalid_id videoId then (Text 400 ''Invalid video ID'', [], w)
      else case stream env (watch_url videoId) 2 w of
             (Inl e, w') \<Rightarrow> (Text 500 ''Stream error'', [PlayStream (watch_url videoId) 2], w')
           | (Inr st, w') \<Rightarrow>
               (Pipe [(''Content-Type'', ''audio/mpeg''), (''Accept-Ranges'', ''bytes'')] st,
                [PlayStream (watch_url videoId) 2], w'))"

definition download_playdl :: "'w env \<Rightarrow> string \<Rightarrow> 'w \<Rightarrow> response \<times> effect list \<times> 'w" where
  "download_playdl env videoId w =
     (if invalid_id videoId then (Text 400 ''Invalid video ID'', [], w)
      else case stream env (watch_url videoId) 2 w of
             (Inl e, w') \<Rightarrow> (Text 500 ''Download error'', [PlayStream (watch_url videoId) 2], w')
           | (Inr st, w') \<Rightarrow>
               (Pipe [(''Content-Type'', ''audio/mpeg''),
                      (''Content-Disposition'',
                       ''attachment; filename='' @ [CHR 0x22] @ videoId @ ''.mp3'' @ [CHR 0x22])] st,
                [PlayStream (watch_url videoId) 2], w'))"

section \<open>The Innertube variant\<close>

text \<open>
  The state of a handler of this variant is the module variable \<^verbatim>\<open>yt\<close> paired with the
  world. \<open>initYT\<close> run without interruption: when \<^verbatim>\<open>yt\<close> is unset the client is created
  and stored; when the creation throws nothing is assigned.
\<close>

definition initYT ::
  "'w env \<Rightarrow> innertube option \<times> 'w \<Rightarrow> (string + innertube) \<times> effect list \<times> (innertube option \<times> 'w)" where
  "initYT env st =
     (case fst st of
        Some y \<Rightarrow> (Inr y, [], st)
      | None \<Rightarrow>
          (case create env (snd st) of
             (Inl e, w') \<Rightarrow> (Inl e, [InnertubeCreate], (fst st, w'))
           | (Inr y, w') \<Rightarrow> (Inr y, [InnertubeCreate], (Some y, w'))))"

text \<open>
  The branches after the selection in the audio-url handler: the URL, or the message of
  the thrown error; with the deciphering call when it is made.
\<close>

definition audio_url_resolve :: "innertube \<Rightarrow> format option \<Rightarrow> (string + string) \<times> effect list" where
  "audio_url_resolve youtube fmt =
     (case fmt of
        None \<Rightarrow> (Inl ''No audio format found'', [])
      | Some f \<Rightarrow>
          (case decipher f of
             Some d \<Rightarrow> (d (player (session youtube)), [Decipher (player (session youtube))])
           | None \<Rightarrow>
               (case url f of
                  None \<Rightarrow> (Inl ''No audio format found'', [])
                | Some u \<Rightarrow> if u = [] then (Inl ''No audio format found'', []) else (Inr u, []))))"

text \<open>The same place in the stream handler.\<close>

definition stream_resolve :: "innertube \<Rightarrow> format option \<Rightarrow> (string + string) \<times> effect list" where
  "stream_resolve youtube fmt =
     (case fmt of
        None \<Rightarrow> (Inl ''No audio format available'', [])
      | Some f \<Rightarrow>
          (case decipher f of
             Some d \<Rightarrow> (d (player (session youtube)), [Decipher (player (session youtube))])
           | None \<Rightarrow>
               (case url f of
                  None \<Rightarrow> (Inl ''Cannot get audio URL'', [])
                | Some u \<Rightarrow> if u = [] then (Inl ''Cannot get audio URL'', []) else (Inr u, []))))"

definition audio_url_innertube ::
  "'w env \<Rightarrow> string \<Rightarrow> innertube option \<times> 'w \<Rightarrow> response \<times> effect list \<times> (innertube option \<times> 'w)" where
  "audio_url_innertube env videoId st =
     (if invalid_id videoId then (JsonError 400 ''Invalid video ID'', [], st)
      else case initYT env st of
             (Inl e, tr, st') \<Rightarrow> (JsonError 500 e, tr, st')
           | (Inr youtube, tr, st') \<Rightarrow>
               (case getBasicInfo env youtube videoId (snd st') of
                  (Inl e, w') \<Rightarrow> (JsonError 500 e, tr @ [GetBasicInfo youtube videoId], (fst st', w'))
                | (Inr i, w') \<Rightarrow>
                    (case audio_url_resolve youtube (select_adaptive i) of
                       (Inl e, tr') \<Rightarrow>
                         (JsonError 500 e, tr @ [GetBasicInfo youtube videoId] @ tr', (fst st', w'))
                     | (Inr u, tr') \<Rightarrow>
                         (JsonUrl u videoId, tr @ [GetBasicInfo youtube videoId] @ tr', (fst st', w')))))"

definition stream_innertube ::
  "'w env \<Rightarrow> string \<Rightarrow> innertube option \<times> 'w \<Rightarrow> response \<times> effect list \<times> (innertube option \<times> 'w)" where
  "stream_innertube env videoId st =
     (if invalid_id videoId then (Text 400 ''Invalid video ID'', [], st)
      else case initYT env st of
             (Inl e, tr, st') \<Rightarrow> (Text 500 (''Stream error: '' @ e), tr, st')
           | (Inr youtube, tr, st') \<Rightarrow>
               (case getBasicInfo env youtube videoId (snd st') of
                  (Inl e, w') \<Rightarrow>
                    (Text 500 (''Stream error: '' @ e), tr @ [GetBasicInfo youtube videoId], (fst st', w'))
                | (Inr i, w') \<Rightarrow>
                    (case stream_resolve youtube (select_adaptive i) of
                       (Inl e, tr') \<Rightarrow>
                         (Text 500 (''Stream error: '' @ e),
                          tr @ [GetBasicInfo youtube videoId] @ tr', (fst st', w'))
                     | (Inr audioUrl, tr') \<Rightarrow>
                         (Redirect audioUrl, tr @ [GetBasicInfo youtube videoId] @ tr', (fst st', w')))))"

text \<open>The download endpoint of this variant only redirects.\<close>

definition download_innertube ::
  "'w env \<Rightarrow> string \<Rightarrow> innertube option \<times> 'w \<Rightarrow> response \<times> effect list \<times> (innertube option \<times> 'w)" where
  "download_innertube env videoId st = (Redirect (''/api/stream/'' @ videoId), [], st)"

text \<open>
  Start-up: the server listens once \<open>initYT\<close> has settled, whichever way (\<^verbatim>\<open>// Start
  anyway, will retry on first request\<close>).
\<close>

datatype server = Listening | ListeningWithoutInnertube string

definition startup :: "'w env \<Rightarrow> 'w \<Rightarrow> server \<times> effect list \<times> (innertube option \<times> 'w)" where
  "startup env w =
     (case initYT env (None, w) of
        (Inl e, tr, st') \<Rightarrow> (ListeningWithoutInnertube e, tr, st')
      | (Inr y, tr, st') \<Rightarrow> (Listening, tr, st'))"

subsection \<open>Calls of \<open>initYT\<close> that overlap\<close>

text \<open>
  \<open>initYT\<close> is an \<^verbatim>\<open>async\<close> function with one \<^verbatim>\<open>await\<close>. A call runs up to the
  \<^verbatim>\<open>await\<close> in one piece: it tests \<^verbatim>\<open>yt\<close> and, when unset, calls
  \<^verbatim>\<open>Innertube.create\<close> and is suspended. Other calls may run before the creation
  settles; then the suspended call resumes in one piece, assigns \<^verbatim>\<open>yt\<close> and returns,
  or throws. \<open>creates\<close> counts the calls of \<^verbatim>\<open>Innertube.create\<close>.
\<close>

datatype task = NotStarted | AwaitingCreate | Returned innertube | Threw string

record sched =
  yt :: "innertube option"
  creates :: nat
  tasks :: "nat \<Rightarrow> task"

datatype event = Call nat | Settle nat "string + innertube"

fun step :: "event \<Rightarrow> sched \<Rightarrow> sched" where
  "step (Call t) c =
     (if tasks c t \<noteq> NotStarted then c
      else case yt c of
             Some y \<Rightarrow> c\<lparr>tasks := (tasks c)(t := Returned y)\<rparr>
           | None \<Rightarrow> c\<lparr>creates := creates c + 1, tasks := (tasks c)(t := AwaitingCreate)\<rparr>)"
| "step (Settle t r) c =
     (if tasks c t \<noteq> AwaitingCreate then c
      else case r of
             Inl e \<Rightarrow> c\<lparr>tasks := (tasks c)(t := Threw e)\<rparr>
           | Inr y \<Rightarrow> c\<lparr>yt := Some y, tasks := (tasks c)(t := Returned y)\<rparr>)"

fun run :: "event list \<Rightarrow> sched \<Rightarrow> sched" where
  "run [] c = c"
| "run (e # es) c = run es (step e c)"

definition fresh :: sched where
  "fresh = \<lparr>yt = None, creates = 0, tasks = (\<lambda>t. NotStarted)\<rparr>"

text \<open>
  Formats for the examples: one video stream, two audio streams of equal bitrate that
  differ in their URL, and an audio stream without a bitrate.
\<close>

definition selector_example :: "format list" where
  "selector_example =
     [\<lparr>mime_type = Some ''video/mp4'', bitrate = Some 1000, url = None, decipher = None\<rparr>,
      \<lparr>mime_type = Some ''audio/webm'', bitrate = Some 128, url = Some ''U1'', decipher = None\<rparr>,
      \<lparr>mime_type = Some ''audio/mp4'', bitrate = Some 128, url = Some ''U2'', decipher = None\<rparr>,
      \<lparr>mime_type = Some ''audio/mp4'', bitrate = None, url = Some ''U3'', decipher = None\<rparr>]"

section \<open>Loading a module\<close>

text \<open>
  The top level of a module, as far as identifiers go. A statement reads identifiers
  when it runs, in the order given; reading one that is not bound throws a
  \<^verbatim>\<open>ReferenceError\<close> and ends the loading. Identifiers inside a function body are
  not read before the function is called. A function declaration is bound from the
  start of the module. \<open>Get\<close> is a call \<^verbatim>\<open>app.get(path, handler)\<close>, which reads
  \<^verbatim>\<open>app\<close> and registers the route.
\<close>

datatype stmt =
    Const string "string list"
  | Function string "string list"
  | Expr "string list" "string list"
  | Get string "string list"

datatype outcome = ReferenceError string "string list" | Loaded "string list"

fun declared :: "stmt list \<Rightarrow> string list" where
  "declared [] = []"
| "declared (Const x rs # ss) = x # declared ss"
| "declared (Function f body # ss) = f # declared ss"
| "declared (s # ss) = declared ss"

fun hoisted :: "stmt list \<Rightarrow> string list" where
  "hoisted [] = []"
| "hoisted (Function f body # ss) = f # hoisted ss"
| "hoisted (s # ss) = hoisted ss"

fun referenced :: "stmt list \<Rightarrow> string list" where
  "referenced [] = []"
| "referenced (Const x rs # ss) = rs @ referenced ss"
| "referenced (Function f body # ss) = body @ referenced ss"
| "referenced (Expr rs body # ss) = rs @ body @ referenced ss"
| "referenced (Get path body # ss) = ''app'' # body @ referenced ss"

fun exec :: "string list \<Rightarrow> string list \<Rightarrow> stmt list \<Rightarrow> outcome" where
  "exec scope routes [] = Loaded routes"
| "exec scope routes (Const x rs # ss) =
     (case find (\<lambda>r. r \<notin> set scope) rs of
        Some r \<Rightarrow> ReferenceError r routes
      | None \<Rightarrow> exec (x # scope) routes ss)"
| "exec scope routes (Function f body # ss) = exec scope routes ss"
| "exec scope routes (Expr rs body # ss) =
     (case find (\<lambda>r. r \<notin> set scope) rs of
        Some r \<Rightarrow> ReferenceError r routes
      | None \<Rightarrow> exec scope routes ss)"
| "exec scope routes (Get path body # ss) =
     (if ''app'' \<notin> set scope then ReferenceError ''app'' routes
      else exec scope (routes @ [path]) ss)"

definition load_module :: "string list \<Rightarrow> stmt list \<Rightarrow> outcome" where
  "load_module globals m = exec (globals @ hoisted m) [] m"

text \<open>What Node binds for every module, and the globals these modules use.\<close>

definition node_globals :: "string list" where
  "node_globals = [''require'', ''module'', ''exports'', ''__filename'', ''__dirname'',
                   ''console'', ''process'', ''Date'', ''Error'']"

text \<open>The Innertube variant, statement by statement.\<close>

definition innertube_module :: "stmt list" where
  "innertube_module =
     [Const ''express'' [''require''],
      Const ''cors'' [''require''],
      Const ''ytsr'' [''require''],
      Const ''Innertube'' [''require''],
      Expr [''app'', ''cors''] [],
      Expr [''app'', ''express''] [],
      Const ''yt'' [],
      Function ''initYT'' [''yt'', ''console'', ''Innertube''],
      Get ''/health'' [''Date''],
      Get ''/api/search'' [''console'', ''ytsr''],
      Get ''/api/audio-url/:videoId'' [''console'', ''initYT'', ''Error''],
      Get ''/api/stream/:videoId'' [''console'', ''initYT'', ''Error''],
      Get ''/api/download/:videoId'' [],
      Expr [''initYT''] [''app'', ''PORT'', ''console'']]"

text \<open>The yt-dlp variant and the play-dl variant, for comparison.\<close>

definition ytdlp_module :: "stmt list" where
  "ytdlp_module =
     [Const ''express'' [''require''],
      Const ''cors'' [''require''],
      Const ''ytdlp'' [''require''],
      Const ''ytsr'' [''require''],
      Const ''fs'' [''require''],
      Const ''path'' [''require''],
      Const ''app'' [''express''],
      Const ''PORT'' [''process''],
      Expr [''app'', ''cors''] [],
      Expr [''app'', ''express''] [],
      Const ''DOWNLOADS_DIR'' [''path'', ''__dirname''],
      Expr [''fs'', ''DOWNLOADS_DIR''] [],
      Get ''/health'' [''Date''],
      Get ''/api/search'' [''console'', ''ytsr''],
      Get ''/api/audio-url/:videoId'' [''console'', ''ytdlp''],
      Get ''/api/stream/:videoId'' [''console'', ''ytdlp''],
      Get ''/api/download/:videoId'' [''console'', ''path'', ''DOWNLOADS_DIR'', ''fs'', ''ytdlp''],
      Expr [''app'', ''PORT''] [''console'', ''PORT'']]"

definition playdl_module :: "stmt list" where
  "playdl_module =
     [Const ''express'' [''require''],
      Const ''cors'' [''require''],
      Const ''ytsr'' [''require''],
      Const ''play'' [''require''],
      Const ''app'' [''express''],
      Const ''PORT'' [''process''],
      Expr [''app'', ''cors''] [],
      Expr [''app'', ''express''] [],
      Get ''/health'' [''Date''],
      Get ''/api/search'' [''console'', ''ytsr''],
      Get ''/api/audio-url/:videoId'' [''console'', ''play'', ''Error''],
      Get ''/api/stream/:videoId'' [''console'', ''play''],
      Get ''/api/download/:videoId'' [''console'', ''play''],
      Expr [''app'', ''PORT''] [''console'', ''PORT'']]"

section \<open>A concrete outside world for the examples\<close>

text \<open>
  The disk is the list of the paths that exist, in the order a directory lists them;
  \<open>creations\<close> counts the calls of \<^verbatim>\<open>Innertube.create\<close>, of which the first fails.
  The downloader writes its output with the extension \<^verbatim>\<open>m4a\<close>. The platform knows a
  video with video streams only, one whose single audio stream has neither URL nor
  decipher function, one whose single audio stream has a decipher function and no URL,
  and answers with the example formats for any other id.
\<close>

record demo_world =
  files :: "string list"
  creations :: nat

definition demo_info :: "string \<Rightarrow> info" where
  "demo_info videoId =
     \<lparr>streaming_data = Some \<lparr>adaptive_formats = Some
        (if videoId = ''only_video_'' then
           [\<lparr>mime_type = Some ''video/mp4'', bitrate = Some 1000, url = Some ''V1'', decipher = None\<rparr>]
         else if videoId = ''audio_nourl'' then
           [\<lparr>mime_type = Some ''audio/webm'', bitrate = Some 160, url = None, decipher = None\<rparr>]
         else if videoId = ''deciphered_'' then
           [\<lparr>mime_type = Some ''audio/webm'', bitrate = Some 160, url = None,
             decipher = Some (\<lambda>p. Inr ''final-url'')\<rparr>]
         else selector_example)\<rparr>\<rparr>"

definition demo_env :: "demo_world env" where
  "demo_env =
     \<lparr>dirname = ''/app'',
      ytsr = (\<lambda>q limit w. (Inr [], w)),
      ytdlp = (\<lambda>u opts w.
         case output_tmpl opts of
           None \<Rightarrow> (Inr (''https://cdn.example/a.m4a'' @ [CHR 0x0A]), w)
         | Some t \<Rightarrow> (Inr [], w\<lparr>files := files w @ [replace_first ''.%(ext)s'' ''.m4a'' t]\<rparr>)),
      existsSync = (\<lambda>p w. p \<in> set (files w)),
      readdirSync = (\<lambda>d w. Inr (map (drop (Suc (length d)))
         (filter (\<lambda>p. prefix (d @ ''/'') p \<and> CHR ''/'' \<notin> set (drop (Suc (length d)) p)) (files w)))),
      renameSync = (\<lambda>a b w.
         if a \<in> set (files w)
         then (None, w\<lparr>files := map (\<lambda>p. if p = a then b else p) (filter (\<lambda>p. p \<noteq> b) (files w))\<rparr>)
         else (Some ''ENOENT'', w)),
      video_info = (\<lambda>u w. (Inr \<lparr>format = selector_example\<rparr>, w)),
      stream = (\<lambda>u quality w. (Inr 0, w)),
      create = (\<lambda>w.
         if creations w = 0 then (Inl ''Innertube unavailable'', w\<lparr>creations := 1\<rparr>)
         else (Inr \<lparr>session = \<lparr>player = Player (creations w)\<rparr>\<rparr>, w\<lparr>creations := Suc (creations w)\<rparr>)),
      getBasicInfo = (\<lambda>y videoId w. (Inr (demo_info videoId), w))\<rparr>"

definition empty_disk :: demo_world where
  "empty_disk = \<lparr>files = [], creations = 0\<rparr>"

text \<open>Disks for the examples: the canonical file of a video in place; the output of the
  downloader before and after the renaming; a file outside the downloads directory.\<close>

definition cached_disk :: demo_world where
  "cached_disk = \<lparr>files = [''/app/downloads/dQw4w9WgXcQ.mp3''], creations = 0\<rparr>"

definition after_download :: demo_world where
  "after_download = \<lparr>files = [''/app/downloads/dQw4w9WgXcQ.m4a''], creations = 0\<rparr>"

definition after_rename :: demo_world where
  "after_rename = \<lparr>files = [''/app/downloads/dQw4w9WgXcQ.mp3''], creations = 0\<rparr>"

definition planted_disk :: demo_world where
  "planted_disk = \<lparr>files = [''/etc/x.mp3''], creations = 0\<rparr>"

text \<open>Two clients, and schedules' states: one with a client stored by call 0, one with
  call 0 suspended in its creation.\<close>

definition clientA :: innertube where "clientA = \<lparr>session = \<lparr>player = Player 1\<rparr>\<rparr>"
definition clientB :: innertube where "clientB = \<lparr>session = \<lparr>player = Player 2\<rparr>\<rparr>"

definition stored :: sched where
  "stored = \<lparr>yt = Some clientA, creates = 1, tasks = (\<lambda>t. if t = 0 then Returned clientA else NotStarted)\<rparr>"

definition pending :: sched where
  "pending = \<lparr>yt = None, creates = 1, tasks = (\<lambda>t. if t = 0 then AwaitingCreate else NotStarted)\<rparr>"

text \<open>The example world after the failed creation and after the next one.\<close>

definition failed_once :: demo_world where
  "failed_once = \<lparr>files = [], creations = 1\<rparr>"

definition created_once :: demo_world where
  "created_once = \<lparr>files = [], creations = 2\<rparr>"

text \<open>Search items: one whose author name and thumbnail URL are empty strings, one with
  every property, one without author and thumbnail.\<close>

definition nameless :: ytsr_item where
  "nameless =
     \<lparr>type = ''video'', id' = Some ''dQw4w9WgXcQ'', title = Some ''A song'',
      author = Some \<lparr>name = Some [], channelID = Some ''UC123''\<rparr>,
      bestThumbnail = Some (Thumbnail (Some [])), duration = Some ''3:32''\<rparr>"

definition complete :: ytsr_item where
  "complete =
     \<lparr>type = ''video'', id' = Some ''dQw4w9WgXcQ'', title = Some ''A song'',
      author = Some \<lparr>name = Some ''Rick'', channelID = Some ''UC123''\<rparr>,
      bestThumbnail = Some (Thumbnail (Some ''https://i.ytimg.com/1.jpg'')), duration = Some ''3:32''\<rparr>"

definition bare :: ytsr_item where
  "bare =
     \<lparr>type = ''video'', id' = Some ''dQw4w9WgXcQ'', title = Some ''A song'',
      author = None, bestThumbnail = None, duration = None\<rparr>"

section \<open>The format selector picks the first audio format of highest bitrate\<close>

text \<open>The sort is a stable descending sort by key.\<close>

lemma filter_insert_cmp:
  "filter (\<lambda>y. key y = k) (insert_cmp (\<lambda>a b. key b - key a) x ys)
      = (if key x = k then x # filter (\<lambda>y. key y = k) ys else filter (\<lambda>y. key y = k) ys)"
  by (induction ys) auto

lemma sort_cmp_stable:
  "filter (\<lambda>x. key x = k) (sort_cmp (\<lambda>a b. key b - key a) xs) = filter (\<lambda>x. key x = k) xs"
  by (induction xs) (auto simp: filter_insert_cmp)

lemma set_insert_cmp: "set (insert_cmp cmp x ys) = insert x (set ys)"
  by (induction ys) auto

lemma sorted_insert_cmp:
  "sorted_wrt (\<lambda>a b. key b \<le> key a) ys \<Longrightarrow>
   sorted_wrt (\<lambda>a b. key b \<le> (key a :: int)) (insert_cmp (\<lambda>a b. key b - key a) x ys)"
  by (induction ys) (auto simp: set_insert_cmp)

lemma sort_cmp_sorted:
  "sorted_wrt (\<lambda>a b. key b \<le> (key a :: int)) (sort_cmp (\<lambda>a b. key b - key a) xs)"
  by (induction xs) (auto simp: sorted_insert_cmp)

text \<open>
  It is the stable sort of the library on the negated key, and so the only arrangement
  of the input that is descending by key and keeps elements of equal key in their
  input order.
\<close>

lemma insert_cmp_insort_key:
  "insert_cmp (\<lambda>a b. key b - key a) x ys = insort_key (\<lambda>x. - key x) x ys"
  by (induction ys) auto

lemma sort_cmp_sort_key: "sort_cmp (\<lambda>a b. key b - key a) xs = sort_key (\<lambda>x. - key x) xs"
  by (induction xs) (auto simp: insert_cmp_insort_key)

lemma stable_descending_unique:
  assumes "mset ys = mset xs"
    and "\<And>k. k \<in> set ys \<Longrightarrow> filter (\<lambda>x. key k = key x) ys = filter (\<lambda>x. key k = key x) xs"
    and "sorted_wrt (\<lambda>a b. key b \<le> (key a :: int)) ys"
  shows "sort_cmp (\<lambda>a b. key b - key a) xs = ys"
proof -
  have "sorted (map (\<lambda>x. - key x) ys)"
    using assms(3) by (simp add: sorted_map)
  moreover have "filter (\<lambda>x. - key k = - key x) ys = filter (\<lambda>x. - key k = - key x) xs"
    if "k \<in> set ys" for k
    using assms(2) [OF that] by simp
  ultimately have "sort_key (\<lambda>x. - key x) xs = ys"
    using assms(1) by (intro properties_for_sort_key) auto
  then show ?thesis by (simp add: sort_cmp_sort_key)
qed

text \<open>The head of the sorted, filtered list, by recursion on the input.\<close>

lemma first_elem_insert_cmp:
  "first_elem (insert_cmp cmp x ys) =
     (case first_elem ys of None \<Rightarrow> Some x | Some y \<Rightarrow> if cmp x y \<le> 0 then Some x else Some y)"
  by (cases ys) auto

lemma pick_best_Nil: "pick_best p key [] = None"
  by (simp add: pick_best_def)

lemma pick_best_Cons:
  "pick_best p key (x # xs) =
     (if p x then (case pick_best p key xs of None \<Rightarrow> Some x
                   | Some y \<Rightarrow> if key y \<le> key x then Some x else Some y)
      else pick_best p key xs)"
  by (simp add: pick_best_def first_elem_insert_cmp split: option.splits)

lemma pick_best_None: "pick_best p key xs = None \<longleftrightarrow> (\<forall>x\<in>set xs. \<not> p x)"
  by (induction xs) (auto simp: pick_best_Nil pick_best_Cons split: option.splits)

lemma pick_best_map:
  "pick_best p key (map g ys) = map_option g (pick_best (p \<circ> g) (key \<circ> g) ys)"
  by (induction ys) (auto simp: pick_best_Nil pick_best_Cons split: option.splits)

lemma pick_best_first_max:
  "pick_best p key xs = Some f \<Longrightarrow>
     \<exists>i<length xs. xs ! i = f \<and> p f \<and> (\<forall>j<length xs. p (xs ! j) \<longrightarrow> key (xs ! j) \<le> key f)
        \<and> (\<forall>j<i. p (xs ! j) \<longrightarrow> key (xs ! j) < key f)"
proof (induction xs arbitrary: f)
  case Nil
  then show ?case by (simp add: pick_best_Nil)
next
  case (Cons x xs)
  show ?case
  proof (cases "p x")
    case False
    with Cons.prems have "pick_best p key xs = Some f" by (simp add: pick_best_Cons)
    from Cons.IH[OF this] obtain i where i: "i < length xs" "xs ! i = f" "p f"
      "\<forall>j<length xs. p (xs ! j) \<longrightarrow> key (xs ! j) \<le> key f"
      "\<forall>j<i. p (xs ! j) \<longrightarrow> key (xs ! j) < key f" by blast
    have "Suc i < length (x # xs)" using i by simp
    moreover have "(x # xs) ! Suc i = f" using i by simp
    moreover have "\<forall>j<length (x # xs). p ((x # xs) ! j) \<longrightarrow> key ((x # xs) ! j) \<le> key f"
      using i False by (auto simp: nth_Cons split: nat.splits)
    moreover have "\<forall>j<Suc i. p ((x # xs) ! j) \<longrightarrow> key ((x # xs) ! j) < key f"
      using i False by (auto simp: nth_Cons split: nat.splits)
    ultimately show ?thesis using i(3) by blast
  next
    case True
    show ?thesis
    proof (cases "pick_best p key xs")
      case None
      with True Cons.prems have fx: "f = x" by (simp add: pick_best_Cons)
      from None have "\<forall>y\<in>set xs. \<not> p y" by (simp add: pick_best_None)
      then have "\<forall>j<length (x # xs). p ((x # xs) ! j) \<longrightarrow> key ((x # xs) ! j) \<le> key f"
        using fx by (auto simp: nth_Cons split: nat.splits)
      then show ?thesis using fx True by (intro exI[of _ 0]) simp
    next
      case (Some y)
      from Cons.IH[OF Some] obtain i where i: "i < length xs" "xs ! i = y" "p y"
        "\<forall>j<length xs. p (xs ! j) \<longrightarrow> key (xs ! j) \<le> key y"
        "\<forall>j<i. p (xs ! j) \<longrightarrow> key (xs ! j) < key y" by blast
      show ?thesis
      proof (cases "key y \<le> key x")
        case le: True
        with True Some Cons.prems have fx: "f = x" by (simp add: pick_best_Cons)
        have "\<forall>j<length (x # xs). p ((x # xs) ! j) \<longrightarrow> key ((x # xs) ! j) \<le> key f"
          using fx i le by (fastforce simp: nth_Cons split: nat.splits)
        then show ?thesis using fx True by (intro exI[of _ 0]) simp
      next
        case gt: False
        with True Some Cons.prems have fy: "f = y" by (simp add: pick_best_Cons)
        have "Suc i < length (x # xs)" using i by simp
        moreover have "(x # xs) ! Suc i = f" using i fy by simp
        moreover have "\<forall>j<length (x # xs). p ((x # xs) ! j) \<longrightarrow> key ((x # xs) ! j) \<le> key f"
          using i fy gt by (fastforce simp: nth_Cons split: nat.splits)
        moreover have "\<forall>j<Suc i. p ((x # xs) ! j) \<longrightarrow> key ((x # xs) ! j) < key f"
          using i fy gt by (fastforce simp: nth_Cons split: nat.splits)
        ultimately show ?thesis using i(3) fy by blast
      qed
    qed
  qed
qed

lemma pick_best_enumerate:
  "pick_best p key xs = Some f \<Longrightarrow>
     \<exists>i<length xs. pick_best (p \<circ> snd) (key \<circ> snd) (enumerate 0 xs) = Some (i, f)
        \<and> xs ! i = f \<and> p f \<and> (\<forall>j<length xs. p (xs ! j) \<longrightarrow> key (xs ! j) \<le> key f)
        \<and> (\<forall>j<i. p (xs ! j) \<longrightarrow> key (xs ! j) < key f)"
proof -
  assume sel: "pick_best p key xs = Some f"
  let ?ys = "enumerate 0 xs"
  have xs: "xs = map snd ?ys" by (simp add: enumerate_eq_zip)
  have "map_option snd (pick_best (p \<circ> snd) (key \<circ> snd) ?ys) = Some f"
    using sel pick_best_map[of p key snd ?ys] by (simp add: enumerate_eq_zip)
  then obtain i g where ig: "pick_best (p \<circ> snd) (key \<circ> snd) ?ys = Some (i, g)" and gf: "g = f"
    by auto
  from pick_best_first_max[OF ig] obtain k where k: "k < length ?ys" "?ys ! k = (i, g)"
      "\<forall>j<length ?ys. (p \<circ> snd) (?ys ! j) \<longrightarrow> (key \<circ> snd) (?ys ! j) \<le> (key \<circ> snd) (i, g)"
      "\<forall>j<k. (p \<circ> snd) (?ys ! j) \<longrightarrow> (key \<circ> snd) (?ys ! j) < (key \<circ> snd) (i, g)"
      "(p \<circ> snd) (i, g)"
    by blast
  have "k = i \<and> xs ! k = g" using k(1,2) by (auto simp: nth_enumerate_eq)
  then have ki: "k = i" and xi: "xs ! k = g" by blast+
  have "\<forall>j<length xs. p (xs ! j) \<longrightarrow> key (xs ! j) \<le> key f"
    using k(3) gf by (simp add: nth_enumerate_eq)
  moreover have "\<forall>j<i. p (xs ! j) \<longrightarrow> key (xs ! j) < key f"
    using k(1,4) gf ki by (simp add: nth_enumerate_eq)
  moreover have "i < length xs" using k(1) ki by simp
  ultimately show ?thesis using ig gf ki xi k(5) by auto
qed

text \<open>
  Claim C1. For every list of formats, the selector returns nothing exactly when no
  format has a MIME type containing "audio". When it returns a format, that format
  sits at an index \<open>i\<close> of the input, is audio, has a bitrate (missing read as 0) at
  least that of every audio format of the list and strictly above that of every audio
  format before index \<open>i\<close>: it is the first of the maximal ones. Running the same
  selection on the formats paired with their positions returns position \<open>i\<close> itself, so
  among equal formats it is the first occurrence that is returned.
\<close>

theorem select_format_first_max:
  "(select_format fs = None \<longleftrightarrow> (\<forall>f\<in>set fs. \<not> is_audio f)) \<and>
   (\<forall>f. select_format fs = Some f \<longrightarrow>
      (\<exists>i<length fs.
          pick_best (is_audio \<circ> snd) (bitrate_or0 \<circ> snd) (enumerate 0 fs) = Some (i, f)
        \<and> fs ! i = f \<and> is_audio f
        \<and> (\<forall>j<length fs. is_audio (fs ! j) \<longrightarrow> bitrate_or0 (fs ! j) \<le> bitrate_or0 f)
        \<and> (\<forall>j<i. is_audio (fs ! j) \<longrightarrow> bitrate_or0 (fs ! j) < bitrate_or0 f)))"
  unfolding select_format_def
  using pick_best_None[of is_audio bitrate_or0 fs] pick_best_enumerate[of is_audio bitrate_or0 fs]
  by blast

theorem select_format_first_max_witness:
  "select_format selector_example = Some (selector_example ! 1) \<and>
   (\<exists>i<length selector_example.
      pick_best (is_audio \<circ> snd) (bitrate_or0 \<circ> snd) (enumerate 0 selector_example)
        = Some (i, selector_example ! 1)
      \<and> (\<forall>j<i. is_audio (selector_example ! j) \<longrightarrow>
             bitrate_or0 (selector_example ! j) < bitrate_or0 (selector_example ! 1)))"
proof -
  have sel: "select_format selector_example = Some (selector_example ! 1)"
    by (simp add: selector_example_def select_format_def pick_best_def is_audio_def
        bitrate_or0_def num_or_def)
  show ?thesis
    using sel select_format_first_max [of selector_example] by blast
qed

section \<open>Validation of the video id\<close>

lemma invalid_id_length: "invalid_id videoId \<longleftrightarrow> length videoId \<noteq> 11"
  by (auto simp: invalid_id_def)

text \<open>
  The download endpoint of the Innertube variant has no length test: it answers an id
  of five characters with a redirect, not with 400.
\<close>

theorem download_innertube_redirects_short_id:
  "length ''short'' \<noteq> 11 \<and>
   download_innertube demo_env ''short'' (None, empty_disk)
     = (Redirect ''/api/stream/short'', [], (None, empty_disk))"
  by (simp add: download_innertube_def)

text \<open>
  Claim C3, amended. For every id whose length is not 11, the audio-url and stream
  handlers of the three variants and the download handlers of the yt-dlp and play-dl
  variants answer 400 "Invalid video ID", make no call to the outside and leave the
  state as it was. The download handler of the Innertube variant answers with a
  redirect to the stream endpoint for that id, also without any call to the outside.
\<close>

theorem invalid_id_answers:
  "length videoId \<noteq> 11 \<Longrightarrow>
     audio_url_ytdlp env videoId w = (JsonError 400 ''Invalid video ID'', [], w) \<and>
     stream_ytdlp env videoId w = (Text 400 ''Invalid video ID'', [], w) \<and>
     download_ytdlp env videoId w = (Text 400 ''Invalid video ID'', [], w) \<and>
     audio_url_playdl env videoId w = (JsonError 400 ''Invalid video ID'', [], w) \<and>
     stream_playdl env videoId w = (Text 400 ''Invalid video ID'', [], w) \<and>
     download_playdl env videoId w = (Text 400 ''Invalid video ID'', [], w) \<and>
     audio_url_innertube env videoId st = (JsonError 400 ''Invalid video ID'', [], st) \<and>
     stream_innertube env videoId st = (Text 400 ''Invalid video ID'', [], st) \<and>
     download_innertube env videoId st = (Redirect (''/api/stream/'' @ videoId), [], st)"
  by (simp add: invalid_id_length audio_url_ytdlp_def stream_ytdlp_def download_ytdlp_def
      audio_url_playdl_def stream_playdl_def download_playdl_def audio_url_innertube_def
      stream_innertube_def download_innertube_def)

theorem invalid_id_answers_witness:
  "length ''short'' \<noteq> 11 \<and>
   audio_url_ytdlp demo_env ''short'' empty_disk = (JsonError 400 ''Invalid video ID'', [], empty_disk) \<and>
   download_ytdlp demo_env ''short'' empty_disk = (Text 400 ''Invalid video ID'', [], empty_disk) \<and>
   stream_innertube demo_env ''short'' (None, empty_disk)
     = (Text 400 ''Invalid video ID'', [], (None, empty_disk))"
proof -
  have h: "length ''short'' \<noteq> 11" by simp
  show ?thesis
    using h invalid_id_answers [OF h, of demo_env empty_disk "(None, empty_disk)"] by simp
qed

section \<open>The download cache of the yt-dlp variant\<close>

lemma demo_outputPath: "outputPath demo_env ''dQw4w9WgXcQ'' = ''/app/downloads/dQw4w9WgXcQ.mp3''"
  by (simp add: outputPath_def DOWNLOADS_DIR_def demo_env_def path_join_def normalize_def)

lemma demo_DOWNLOADS_DIR: "DOWNLOADS_DIR demo_env = ''/app/downloads''"
  by (simp add: DOWNLOADS_DIR_def demo_env_def path_join_def normalize_def)

lemma repeat_request_fixed:
  "h w = (r, tr, w) \<Longrightarrow> repeat_request h n w = (replicate n (r, tr), w)"
  by (induction n) simp_all

text \<open>
  Claim C5. When the id has 11 characters and the canonical file exists, the download
  handler sends that path after the one existence test, without running the downloader
  and without changing the world; so any number of repeated requests give the same
  answer, and no effect of any of them is a run of the downloader.
\<close>

theorem cached_download_repeats:
  assumes "length videoId = 11"
    and "existsSync env (outputPath env videoId) w"
  shows "download_ytdlp env videoId w
           = (SendFile (outputPath env videoId), [ExistsSync (outputPath env videoId)], w) \<and>
         repeat_request (download_ytdlp env videoId) n w
           = (replicate n (SendFile (outputPath env videoId), [ExistsSync (outputPath env videoId)]), w) \<and>
         filter is_download (concat (map snd (fst (repeat_request (download_ytdlp env videoId) n w)))) = []"
proof -
  have one: "download_ytdlp env videoId w
           = (SendFile (outputPath env videoId), [ExistsSync (outputPath env videoId)], w)"
    using assms by (simp add: download_ytdlp_def invalid_id_length)
  have many: "repeat_request (download_ytdlp env videoId) n w
           = (replicate n (SendFile (outputPath env videoId), [ExistsSync (outputPath env videoId)]), w)"
    using one by (rule repeat_request_fixed [where h = "download_ytdlp env videoId"])
  have "filter is_download (concat (map snd (replicate n (r, [ExistsSync p])))) = []"
    for r :: response and p
    by (induction n) simp_all
  with one many show ?thesis by simp
qed

theorem cached_download_repeats_witness:
  "length ''dQw4w9WgXcQ'' = 11 \<and>
   existsSync demo_env (outputPath demo_env ''dQw4w9WgXcQ'') cached_disk \<and>
   repeat_request (download_ytdlp demo_env ''dQw4w9WgXcQ'') 5 cached_disk
     = (replicate 5 (SendFile ''/app/downloads/dQw4w9WgXcQ.mp3'',
                     [ExistsSync ''/app/downloads/dQw4w9WgXcQ.mp3'']), cached_disk)"
proof -
  have l: "length ''dQw4w9WgXcQ'' = 11" by simp
  have e: "existsSync demo_env (outputPath demo_env ''dQw4w9WgXcQ'') cached_disk"
    by (simp add: demo_outputPath) (simp add: demo_env_def cached_disk_def)
  show ?thesis
    using l e cached_download_repeats [OF l e, of 5] by (simp add: demo_outputPath)
qed

lemma download_ytdlp_miss:
  assumes "length videoId = 11"
    and "\<not> existsSync env (outputPath env videoId) w"
    and "ytdlp env (watch_url videoId) (extract_opts (outputPath env videoId)) w = (Inr out, w1)"
  shows "download_ytdlp env videoId w =
           find_downloaded env videoId
             [ExistsSync (outputPath env videoId),
              Ytdlp (watch_url videoId) (extract_opts (outputPath env videoId))] w1"
  using assms by (simp add: download_ytdlp_def invalid_id_length)

text \<open>
  Claim C6. On a cache miss where the downloader returns, the handler has tested the
  canonical path, run the downloader and listed the downloads directory. When no listed
  name starts with the id the answer is 500 "Download failed". Otherwise the first such
  name is taken: if its path is the canonical path that path is sent; if it differs, the
  file is renamed to the canonical path and the canonical path is sent. The names that
  the directory lists are taken to exist, and the renaming considered is one that
  succeeds.
\<close>

theorem cache_miss_download:
  assumes "length videoId = 11"
    and "\<not> existsSync env (outputPath env videoId) w"
    and "ytdlp env (watch_url videoId) (extract_opts (outputPath env videoId)) w = (Inr out, w1)"
    and "readdirSync env (DOWNLOADS_DIR env) w1 = Inr names"
    and "\<forall>f\<in>set names. existsSync env (path_join [DOWNLOADS_DIR env, f]) w1"
  shows "(find (\<lambda>f. startsWith f videoId) names = None \<longrightarrow>
            download_ytdlp env videoId w =
              (Text 500 ''Download failed'',
               [ExistsSync (outputPath env videoId),
                Ytdlp (watch_url videoId) (extract_opts (outputPath env videoId)),
                ReaddirSync (DOWNLOADS_DIR env)], w1)) \<and>
         (\<forall>f. find (\<lambda>f. startsWith f videoId) names = Some f \<longrightarrow>
            (path_join [DOWNLOADS_DIR env, f] = outputPath env videoId \<longrightarrow>
               download_ytdlp env videoId w =
                 (SendFile (outputPath env videoId),
                  [ExistsSync (outputPath env videoId),
                   Ytdlp (watch_url videoId) (extract_opts (outputPath env videoId)),
                   ReaddirSync (DOWNLOADS_DIR env)], w1)) \<and>
            (path_join [DOWNLOADS_DIR env, f] \<noteq> outputPath env videoId \<longrightarrow>
               (\<forall>w2. renameSync env (path_join [DOWNLOADS_DIR env, f]) (outputPath env videoId) w1
                        = (None, w2) \<longrightarrow>
                  download_ytdlp env videoId w =
                    (SendFile (outputPath env videoId),
                     [ExistsSync (outputPath env videoId),
                      Ytdlp (watch_url videoId) (extract_opts (outputPath env videoId)),
                      ReaddirSync (DOWNLOADS_DIR env),
                      ExistsSync (path_join [DOWNLOADS_DIR env, f]),
                      RenameSync (path_join [DOWNLOADS_DIR env, f]) (outputPath env videoId)], w2))))"
proof -
  note miss = download_ytdlp_miss [OF assms(1-3)]
  have none: "find (\<lambda>f. startsWith f videoId) names = None \<Longrightarrow> ?thesis"
    using assms(4) by (simp add: miss find_downloaded_def)
  have some: ?thesis if f: "find (\<lambda>f. startsWith f videoId) names = Some f" for f
  proof -
    from f have "f \<in> set names" and "startsWith f videoId"
      by (auto simp: find_Some_iff)
    then have ex: "existsSync env (path_join [DOWNLOADS_DIR env, f]) w1" and ne: "f \<noteq> []"
      using assms(1,5) by (auto simp: startsWith_def)
    show ?thesis
      using f ex ne assms(4) by (simp add: miss find_downloaded_def Let_def)
  qed
  show ?thesis
    using none some by (cases "find (\<lambda>f. startsWith f videoId) names") blast+
qed

theorem cache_miss_download_witness:
  "length ''dQw4w9WgXcQ'' = 11 \<and>
   \<not> existsSync demo_env (outputPath demo_env ''dQw4w9WgXcQ'') empty_disk \<and>
   ytdlp demo_env (watch_url ''dQw4w9WgXcQ'') (extract_opts (outputPath demo_env ''dQw4w9WgXcQ'')) empty_disk
     = (Inr [], after_download) \<and>
   readdirSync demo_env (DOWNLOADS_DIR demo_env) after_download = Inr [''dQw4w9WgXcQ.m4a''] \<and>
   existsSync demo_env (path_join [DOWNLOADS_DIR demo_env, ''dQw4w9WgXcQ.m4a'']) after_download \<and>
   find (\<lambda>f. startsWith f ''dQw4w9WgXcQ'') [''dQw4w9WgXcQ.m4a''] = Some ''dQw4w9WgXcQ.m4a'' \<and>
   path_join [DOWNLOADS_DIR demo_env, ''dQw4w9WgXcQ.m4a''] \<noteq> outputPath demo_env ''dQw4w9WgXcQ'' \<and>
   renameSync demo_env (path_join [DOWNLOADS_DIR demo_env, ''dQw4w9WgXcQ.m4a''])
     (outputPath demo_env ''dQw4w9WgXcQ'') after_download = (None, after_rename) \<and>
   fst (download_ytdlp demo_env ''dQw4w9WgXcQ'' empty_disk) = SendFile ''/app/downloads/dQw4w9WgXcQ.mp3'' \<and>
   snd (snd (download_ytdlp demo_env ''dQw4w9WgXcQ'' empty_disk)) = after_rename"
proof -
  have l: "length ''dQw4w9WgXcQ'' = 11" by simp
  have m: "\<not> existsSync demo_env (outputPath demo_env ''dQw4w9WgXcQ'') empty_disk"
    by (simp add: demo_env_def empty_disk_def)
  have y: "ytdlp demo_env (watch_url ''dQw4w9WgXcQ'') (extract_opts (outputPath demo_env ''dQw4w9WgXcQ'')) empty_disk
     = (Inr [], after_download)"
    by (simp add: demo_outputPath) (simp add: demo_env_def empty_disk_def after_download_def extract_opts_def)
  have r: "readdirSync demo_env (DOWNLOADS_DIR demo_env) after_download = Inr [''dQw4w9WgXcQ.m4a'']"
    by (simp add: demo_DOWNLOADS_DIR) (simp add: demo_env_def after_download_def)
  have p: "path_join [DOWNLOADS_DIR demo_env, ''dQw4w9WgXcQ.m4a''] = ''/app/downloads/dQw4w9WgXcQ.m4a''"
    by (simp add: demo_DOWNLOADS_DIR) (simp add: path_join_def normalize_def)
  have c: "\<forall>f\<in>set [''dQw4w9WgXcQ.m4a'']. existsSync demo_env (path_join [DOWNLOADS_DIR demo_env, f]) after_download"
    by (simp add: p) (simp add: demo_env_def after_download_def)
  have f: "find (\<lambda>f. startsWith f ''dQw4w9WgXcQ'') [''dQw4w9WgXcQ.m4a''] = Some ''dQw4w9WgXcQ.m4a''"
    by (simp add: startsWith_def)
  have d: "path_join [DOWNLOADS_DIR demo_env, ''dQw4w9WgXcQ.m4a''] \<noteq> outputPath demo_env ''dQw4w9WgXcQ''"
    by (simp add: p demo_outputPath)
  have n: "renameSync demo_env (path_join [DOWNLOADS_DIR demo_env, ''dQw4w9WgXcQ.m4a''])
     (outputPath demo_env ''dQw4w9WgXcQ'') after_download = (None, after_rename)"
    by (simp add: p demo_outputPath) (simp add: demo_env_def after_download_def after_rename_def)
  have c': "existsSync demo_env (path_join [DOWNLOADS_DIR demo_env, ''dQw4w9WgXcQ.m4a'']) after_download"
    using c by simp
  show ?thesis
    using l m y r c' f d n cache_miss_download [OF l m y r c] by (simp add: demo_outputPath)
qed

lemma find_downloaded_failed_iff:
  assumes "readdirSync env (DOWNLOADS_DIR env) w = Inr names" and "videoId \<noteq> []"
  shows "fst (find_downloaded env videoId tr w) = Text 500 ''Download failed''
           \<longleftrightarrow> \<not> (\<exists>f\<in>set names. prefix videoId f)"
proof (cases "find (\<lambda>f. startsWith f videoId) names")
  case None
  then have no: "\<not> (\<exists>f\<in>set names. prefix videoId f)"
    by (simp add: find_None_iff startsWith_def)
  have "fst (find_downloaded env videoId tr w) = Text 500 ''Download failed''"
    by (simp add: find_downloaded_def assms(1) None)
  with no show ?thesis by simp
next
  case (Some f)
  then have f: "f \<in> set names" "prefix videoId f"
    by (auto simp: find_Some_iff startsWith_def)
  with assms(2) have ne: "f \<noteq> []" by auto
  have "fst (find_downloaded env videoId tr w) \<noteq> Text 500 ''Download failed''"
    by (simp add: find_downloaded_def assms(1) Some ne Let_def split: prod.splits option.splits)
  with f show ?thesis by blast
qed

text \<open>
  Claim C10. The validation looks at the length only, so every id of 11 characters
  passes, whatever its characters. In the download handler the canonical path is the
  id with \<^verbatim>\<open>.mp3\<close> appended, joined to the downloads directory as it is; the first
  effect of the handler is the existence test of that path, a hit sends it, and after
  a download the answer is "Download failed" exactly when no listed name has the id as
  a prefix. The example is an id made of dots and slashes whose canonical path lies
  outside the downloads directory.
\<close>

theorem eleven_chars_reach_disk:
  "length videoId = 11 \<Longrightarrow>
     \<not> invalid_id videoId \<and>
     outputPath env videoId = path_join [path_join [dirname env, ''downloads''], videoId @ ''.mp3''] \<and>
     (\<exists>tr. fst (snd (download_ytdlp env videoId w)) = ExistsSync (outputPath env videoId) # tr) \<and>
     (existsSync env (outputPath env videoId) w \<longrightarrow>
        fst (download_ytdlp env videoId w) = SendFile (outputPath env videoId)) \<and>
     (\<forall>out w1 names.
        \<not> existsSync env (outputPath env videoId) w \<and>
        ytdlp env (watch_url videoId) (extract_opts (outputPath env videoId)) w = (Inr out, w1) \<and>
        readdirSync env (DOWNLOADS_DIR env) w1 = Inr names \<longrightarrow>
          (fst (download_ytdlp env videoId w) = Text 500 ''Download failed''
             \<longleftrightarrow> \<not> (\<exists>f\<in>set names. prefix videoId f)))"
proof -
  assume l: "length videoId = 11"
  then have ne: "videoId \<noteq> []" by auto
  have a: "\<not> invalid_id videoId" using l by (simp add: invalid_id_length)
  have b: "outputPath env videoId = path_join [path_join [dirname env, ''downloads''], videoId @ ''.mp3'']"
    by (simp add: outputPath_def DOWNLOADS_DIR_def)
  have c: "\<exists>tr. fst (snd (download_ytdlp env videoId w)) = ExistsSync (outputPath env videoId) # tr"
    using a by (auto simp: download_ytdlp_def find_downloaded_def Let_def
        split: prod.splits sum.splits option.splits)
  have d: "existsSync env (outputPath env videoId) w \<longrightarrow>
        fst (download_ytdlp env videoId w) = SendFile (outputPath env videoId)"
    using a by (simp add: download_ytdlp_def)
  have e: "fst (download_ytdlp env videoId w) = Text 500 ''Download failed''
             \<longleftrightarrow> \<not> (\<exists>f\<in>set names. prefix videoId f)"
    if "\<not> existsSync env (outputPath env videoId) w"
      "ytdlp env (watch_url videoId) (extract_opts (outputPath env videoId)) w = (Inr out, w1)"
      "readdirSync env (DOWNLOADS_DIR env) w1 = Inr names" for out w1 names
    using that a find_downloaded_failed_iff [OF that(3) ne]
    by (simp add: download_ytdlp_def)
  show ?thesis using a b c d e by blast
qed

theorem eleven_chars_reach_disk_witness:
  "length ''../../etc/x'' = 11 \<and>
   \<not> invalid_id ''../../etc/x'' \<and>
   outputPath demo_env ''../../etc/x'' = ''/etc/x.mp3'' \<and>
   existsSync demo_env (outputPath demo_env ''../../etc/x'') planted_disk \<and>
   fst (download_ytdlp demo_env ''../../etc/x'' planted_disk) = SendFile ''/etc/x.mp3''"
proof -
  have l: "length ''../../etc/x'' = 11" by simp
  have p: "outputPath demo_env ''../../etc/x'' = ''/etc/x.mp3''"
    by (simp add: outputPath_def DOWNLOADS_DIR_def demo_env_def path_join_def normalize_def)
  have e: "existsSync demo_env (outputPath demo_env ''../../etc/x'') planted_disk"
    by (simp add: p) (simp add: demo_env_def planted_disk_def)
  show ?thesis
    using l p e eleven_chars_reach_disk [OF l, of demo_env planted_disk] by simp
qed


section \<open>Initialisation of the Innertube client\<close>

lemma run_append: "run (es @ fs) c = run fs (run es c)"
  by (induction es arbitrary: c) simp_all

lemma run_calls_unset:
  "yt c = None \<Longrightarrow> (\<forall>t<n. tasks c t = NotStarted) \<Longrightarrow>
     run (map Call [0..<n]) c
       = c\<lparr>creates := creates c + n,
            tasks := (\<lambda>t. if t < n then AwaitingCreate else tasks c t)\<rparr>"
proof (induction n)
  case 0
  then show ?case by simp
next
  case (Suc n)
  then have IH: "run (map Call [0..<n]) c
       = c\<lparr>creates := creates c + n,
            tasks := (\<lambda>t. if t < n then AwaitingCreate else tasks c t)\<rparr>"
    by simp
  have n: "tasks c n = NotStarted" using Suc.prems by simp
  show ?case
    using Suc.prems(1) n by (simp add: run_append IH fun_eq_iff less_Suc_eq)
qed

text \<open>One call followed at once by the settling of its creation is \<open>initYT\<close> run without
  interruption.\<close>

lemma initYT_as_steps:
  "create env w = (r, w') \<Longrightarrow> tasks c t = NotStarted \<Longrightarrow> yt c = v \<Longrightarrow>
     (case initYT env (v, w) of (res, tr, (v', w'')) \<Rightarrow>
        yt (run [Call t, Settle t r] c) = v' \<and>
        tasks (run [Call t, Settle t r] c) t = (case res of Inl e \<Rightarrow> Threw e | Inr y \<Rightarrow> Returned y) \<and>
        creates (run [Call t, Settle t r] c) = creates c + length tr)"
  by (cases v; cases r) (auto simp: initYT_def)

text \<open>
  Initialisation is not shared between overlapping calls: two calls that both start
  before either creation has settled call \<^verbatim>\<open>Innertube.create\<close> twice, and each
  returns the client of its own creation.
\<close>

theorem two_overlapping_calls_create_twice:
  "creates (run [Call 0, Call 1, Settle 0 (Inr clientA), Settle 1 (Inr clientB)] fresh) = 2 \<and>
   tasks (run [Call 0, Call 1, Settle 0 (Inr clientA), Settle 1 (Inr clientB)] fresh) 0 = Returned clientA \<and>
   tasks (run [Call 0, Call 1, Settle 0 (Inr clientA), Settle 1 (Inr clientB)] fresh) 1 = Returned clientB \<and>
   clientA \<noteq> clientB"
  by (simp add: fresh_def clientA_def clientB_def)

text \<open>
  Claim C2, amended. A call of \<open>initYT\<close> that starts when a client is stored returns
  that client and makes no creation call. Every call that starts while none is stored
  makes its own creation call: \<open>n\<close> calls started one after the other before any
  creation has settled make \<open>n\<close> creation calls, leave the variable unset and are all
  suspended; and a suspended call gets the outcome of its own creation: when it
  succeeds the call returns that client and stores it, when it fails the call throws
  that error.
\<close>

theorem initYT_creates_per_unset_call:
  "(yt c = Some y \<and> tasks c t = NotStarted \<longrightarrow>
      step (Call t) c = c\<lparr>tasks := (tasks c)(t := Returned y)\<rparr>) \<and>
   (initYT env (Some y, w) = (Inr y, [], (Some y, w))) \<and>
   (yt c = None \<and> (\<forall>t<n. tasks c t = NotStarted) \<longrightarrow>
      creates (run (map Call [0..<n]) c) = creates c + n \<and>
      yt (run (map Call [0..<n]) c) = None \<and>
      (\<forall>t<n. tasks (run (map Call [0..<n]) c) t = AwaitingCreate)) \<and>
   (tasks c t = AwaitingCreate \<longrightarrow>
      tasks (step (Settle t (Inr y)) c) t = Returned y \<and>
      yt (step (Settle t (Inr y)) c) = Some y \<and>
      creates (step (Settle t (Inr y)) c) = creates c \<and>
      tasks (step (Settle t (Inl e)) c) t = Threw e \<and>
      creates (step (Settle t (Inl e)) c) = creates c)"
  by (auto simp: run_calls_unset initYT_def)

theorem initYT_creates_per_unset_call_witness:
  "yt fresh = None \<and> tasks fresh 0 = NotStarted \<and> tasks fresh 1 = NotStarted \<and>
   tasks fresh 2 = NotStarted \<and>
   creates (run (map Call [0..<3]) fresh) = 3 \<and>
   yt stored = Some clientA \<and> tasks stored 1 = NotStarted \<and>
   creates (step (Call 1) stored) = 1 \<and> tasks (step (Call 1) stored) 1 = Returned clientA \<and>
   tasks pending 0 = AwaitingCreate \<and>
   yt (step (Settle 0 (Inr clientB)) pending) = Some clientB"
proof -
  have a: "yt fresh = None \<and> (\<forall>t<3. tasks fresh t = NotStarted)"
    by (simp add: fresh_def)
  have a': "tasks fresh 0 = NotStarted \<and> tasks fresh 1 = NotStarted \<and> tasks fresh 2 = NotStarted"
    by (simp add: fresh_def)
  have b: "yt stored = Some clientA \<and> tasks stored 1 = NotStarted"
    by (simp add: stored_def)
  have c: "tasks pending 0 = AwaitingCreate"
    by (simp add: pending_def)
  have "creates (run (map Call [0..<3]) fresh) = creates fresh + 3"
    using a initYT_creates_per_unset_call [of fresh clientA 0 demo_env empty_disk 3] by blast
  then have d: "creates (run (map Call [0..<3]) fresh) = 3"
    by (simp add: fresh_def)
  have "step (Call 1) stored = stored\<lparr>tasks := (tasks stored)(1 := Returned clientA)\<rparr>"
    using b initYT_creates_per_unset_call [of stored clientA 1 demo_env empty_disk 0] by blast
  then have e: "creates (step (Call 1) stored) = 1 \<and> tasks (step (Call 1) stored) 1 = Returned clientA"
    by (simp add: stored_def)
  have f: "yt (step (Settle 0 (Inr clientB)) pending) = Some clientB"
    using c initYT_creates_per_unset_call [of pending clientB 0 demo_env empty_disk 0] by blast
  show ?thesis using a a' b c d e f by blast
qed

text \<open>
  Claim C7. When the creation throws, \<open>initYT\<close> throws the same error to its caller and
  the variable stays unset: the start-up listens all the same, a request with an id of
  11 characters answers 500 with that error, and the next call of \<open>initYT\<close> calls the
  creation again and, when that one succeeds, returns and stores the client. Between
  overlapping calls too, a creation that fails leaves the variable as it was.
\<close>

theorem init_failure_leaves_yt_unset:
  assumes "create env w = (Inl e, w1)"
  shows "initYT env (None, w) = (Inl e, [InnertubeCreate], (None, w1)) \<and>
         startup env w = (ListeningWithoutInnertube e, [InnertubeCreate], (None, w1)) \<and>
         (length videoId = 11 \<longrightarrow>
            audio_url_innertube env videoId (None, w) = (JsonError 500 e, [InnertubeCreate], (None, w1)) \<and>
            stream_innertube env videoId (None, w)
              = (Text 500 (''Stream error: '' @ e), [InnertubeCreate], (None, w1))) \<and>
         (\<forall>y w2. create env w1 = (Inr y, w2) \<longrightarrow>
            initYT env (None, w1) = (Inr y, [InnertubeCreate], (Some y, w2))) \<and>
         (tasks c t = AwaitingCreate \<longrightarrow>
            tasks (step (Settle t (Inl e)) c) t = Threw e \<and>
            yt (step (Settle t (Inl e)) c) = yt c)"
  using assms
  by (simp add: initYT_def startup_def audio_url_innertube_def stream_innertube_def invalid_id_length)

theorem init_failure_leaves_yt_unset_witness:
  "create demo_env empty_disk = (Inl ''Innertube unavailable'', failed_once) \<and>
   length ''dQw4w9WgXcQ'' = 11 \<and>
   create demo_env failed_once = (Inr \<lparr>session = \<lparr>player = Player 1\<rparr>\<rparr>, created_once) \<and>
   startup demo_env empty_disk
     = (ListeningWithoutInnertube ''Innertube unavailable'', [InnertubeCreate], (None, failed_once)) \<and>
   audio_url_innertube demo_env ''dQw4w9WgXcQ'' (None, empty_disk)
     = (JsonError 500 ''Innertube unavailable'', [InnertubeCreate], (None, failed_once)) \<and>
   initYT demo_env (None, failed_once)
     = (Inr \<lparr>session = \<lparr>player = Player 1\<rparr>\<rparr>, [InnertubeCreate],
        (Some \<lparr>session = \<lparr>player = Player 1\<rparr>\<rparr>, created_once))"
proof -
  have a: "create demo_env empty_disk = (Inl ''Innertube unavailable'', failed_once)"
    by (simp add: demo_env_def empty_disk_def failed_once_def)
  have b: "create demo_env failed_once = (Inr \<lparr>session = \<lparr>player = Player 1\<rparr>\<rparr>, created_once)"
    by (simp add: demo_env_def failed_once_def created_once_def)
  have l: "length ''dQw4w9WgXcQ'' = 11" by simp
  show ?thesis
    using a b l init_failure_leaves_yt_unset [OF a, of "''dQw4w9WgXcQ''"] by blast
qed

section \<open>From the selected format to the URL\<close>

text \<open>Both handlers hand the deciphering function the player of the client that \<open>initYT\<close>
  returned, the one \<open>getBasicInfo\<close> was called on.\<close>

lemma decipher_gets_player_of_same_client:
  "decipher f = Some d \<Longrightarrow>
     audio_url_resolve youtube (Some f) = (d (player (session youtube)), [Decipher (player (session youtube))]) \<and>
     stream_resolve youtube (Some f) = (d (player (session youtube)), [Decipher (player (session youtube))])"
  by (simp add: audio_url_resolve_def stream_resolve_def)

lemma audio_url_innertube_deciphers:
  assumes "length videoId = 11"
    and "initYT env st = (Inr youtube, tr, st')"
    and "getBasicInfo env youtube videoId (snd st') = (Inr i, w')"
    and "select_adaptive i = Some f"
    and "decipher f = Some d"
  shows "audio_url_innertube env videoId st =
           ((case d (player (session youtube)) of
               Inl e \<Rightarrow> JsonError 500 e
             | Inr u \<Rightarrow> JsonUrl u videoId),
            tr @ [GetBasicInfo youtube videoId, Decipher (player (session youtube))],
            (fst st', w'))"
  using assms
  by (simp add: audio_url_innertube_def invalid_id_length audio_url_resolve_def split: sum.splits)

lemma stream_resolve_distinguishes:
  "stream_resolve youtube None = (Inl ''No audio format available'', []) \<and>
   (decipher f = None \<and> \<not> truthy_str (url f) \<longrightarrow>
      stream_resolve youtube (Some f) = (Inl ''Cannot get audio URL'', []))"
  by (auto simp: stream_resolve_def truthy_str_def split: option.splits)

lemma audio_url_resolve_same_message:
  "audio_url_resolve youtube None = (Inl ''No audio format found'', []) \<and>
   (decipher f = None \<and> \<not> truthy_str (url f) \<longrightarrow>
      audio_url_resolve youtube (Some f) = (Inl ''No audio format found'', []))"
  by (auto simp: audio_url_resolve_def truthy_str_def split: option.splits)







section \<open>Search results\<close>

text \<open>
  Presence is not enough for a property to be kept: an author name that is present but
  empty is replaced by "Unknown", and an empty thumbnail URL by the default URL.
\<close>

theorem empty_author_name_is_replaced:
  "Option.bind (author nameless) name = Some [] \<and>
   artist (to_video nameless) = ''Unknown'' \<and>
   Option.bind (bestThumbnail nameless) thumbnail_url = Some [] \<and>
   thumbnail (to_video nameless) = ''https://img.youtube.com/vi/dQw4w9WgXcQ/hqdefault.jpg''"
  by (simp add: nameless_def to_video_def str_or_def template_str_def)

text \<open>
  Claim C8, amended. The artist is the author's name when there is one and it is not
  empty, and "Unknown" otherwise; the thumbnail is the URL of the best thumbnail when
  there is one and it is not empty, and otherwise the default URL built from the id of
  the item; the author id is the channel id when present and the empty string
  otherwise.
\<close>

theorem to_video_defaults:
  "(\<forall>a n. author v = Some a \<and> name a = Some n \<and> n \<noteq> [] \<longrightarrow> artist (to_video v) = n) \<and>
   (author v = None \<or> (\<exists>a. author v = Some a \<and> (name a = None \<or> name a = Some []))
      \<longrightarrow> artist (to_video v) = ''Unknown'') \<and>
   (\<forall>t u. bestThumbnail v = Some t \<and> thumbnail_url t = Some u \<and> u \<noteq> [] \<longrightarrow> thumbnail (to_video v) = u) \<and>
   (bestThumbnail v = None \<or> (\<exists>t. bestThumbnail v = Some t \<and> (thumbnail_url t = None \<or> thumbnail_url t = Some []))
      \<longrightarrow> thumbnail (to_video v)
            = ''https://img.youtube.com/vi/'' @ template_str (id' v) @ ''/hqdefault.jpg'') \<and>
   (\<forall>a c. author v = Some a \<and> channelID a = Some c \<longrightarrow> authorId (to_video v) = c) \<and>
   (author v = None \<or> (\<exists>a. author v = Some a \<and> channelID a = None) \<longrightarrow> authorId (to_video v) = [])"
  by (auto simp: to_video_def str_or_def split: option.splits)

theorem to_video_defaults_witness:
  "artist (to_video complete) = ''Rick'' \<and>
   thumbnail (to_video complete) = ''https://i.ytimg.com/1.jpg'' \<and>
   authorId (to_video complete) = ''UC123'' \<and>
   artist (to_video bare) = ''Unknown'' \<and>
   thumbnail (to_video bare) = ''https://img.youtube.com/vi/dQw4w9WgXcQ/hqdefault.jpg'' \<and>
   authorId (to_video bare) = []"
proof -
  have c: "author complete = Some \<lparr>name = Some ''Rick'', channelID = Some ''UC123''\<rparr>"
    "bestThumbnail complete = Some (Thumbnail (Some ''https://i.ytimg.com/1.jpg''))"
    by (simp_all add: complete_def)
  have b: "author bare = None" "bestThumbnail bare = None" "id' bare = Some ''dQw4w9WgXcQ''"
    by (simp_all add: bare_def)
  show ?thesis
    using to_video_defaults [of complete] to_video_defaults [of bare] c b
    by (simp add: template_str_def)
qed

section \<open>Loading the modules\<close>

text \<open>The two modules of \<^verbatim>\<open>index.js\<close> load and register their five routes.\<close>

lemma index_modules_load:
  "load_module node_globals ytdlp_module
     = Loaded [''/health'', ''/api/search'', ''/api/audio-url/:videoId'', ''/api/stream/:videoId'',
               ''/api/download/:videoId''] \<and>
   load_module node_globals playdl_module
     = Loaded [''/health'', ''/api/search'', ''/api/audio-url/:videoId'', ''/api/stream/:videoId'',
               ''/api/download/:videoId'']"
  by (simp add: load_module_def node_globals_def ytdlp_module_def playdl_module_def)

lemma exec_fails_without_app:
  "''app'' \<notin> set scope \<Longrightarrow>
     \<exists>x. exec scope [] (Expr (''app'' # rs) body # ss) = ReferenceError x []"
  by (auto split: option.splits)

text \<open>
  Claim C9. The module of the Innertube variant refers to \<^verbatim>\<open>app\<close> and \<^verbatim>\<open>PORT\<close> and
  declares neither. Unless the host already binds \<^verbatim>\<open>app\<close>, loading the module ends
  in a \<^verbatim>\<open>ReferenceError\<close> with no route registered; with \<^verbatim>\<open>require\<close> bound, as in
  Node, the identifier in the error is \<^verbatim>\<open>app\<close>.
\<close>

theorem innertube_module_never_loads:
  "''app'' \<in> set (referenced innertube_module) \<and> ''PORT'' \<in> set (referenced innertube_module) \<and>
   ''app'' \<notin> set (declared innertube_module) \<and> ''PORT'' \<notin> set (declared innertube_module) \<and>
   (''app'' \<notin> set globals \<longrightarrow> (\<exists>x. load_module globals innertube_module = ReferenceError x [])) \<and>
   (''app'' \<notin> set globals \<and> ''require'' \<in> set globals \<longrightarrow>
      load_module globals innertube_module = ReferenceError ''app'' [])"
proof -
  have r: "''app'' \<in> set (referenced innertube_module) \<and> ''PORT'' \<in> set (referenced innertube_module)"
    by (simp add: innertube_module_def)
  have d: "''app'' \<notin> set (declared innertube_module) \<and> ''PORT'' \<notin> set (declared innertube_module)"
    by (simp add: innertube_module_def)
  have l: "\<exists>x. load_module globals innertube_module = ReferenceError x []" if "''app'' \<notin> set globals"
    using that by (cases "''require'' \<in> set globals") (simp_all add: load_module_def innertube_module_def)
  have q: "load_module globals innertube_module = ReferenceError ''app'' []"
    if "''app'' \<notin> set globals" "''require'' \<in> set globals"
    using that by (simp add: load_module_def innertube_module_def)
  show ?thesis using r d l q by blast
qed

theorem innertube_module_never_loads_witness:
  "''app'' \<notin> set node_globals \<and> ''require'' \<in> set node_globals \<and>
   load_module node_globals innertube_module = ReferenceError ''app'' []"
proof -
  have a: "''app'' \<notin> set node_globals \<and> ''require'' \<in> set node_globals"
    by (simp add: node_globals_def)
  show ?thesis
    using a innertube_module_never_loads [of node_globals] by blast
qed


end
